theory Spec2Isabelle
  imports Complex_Main
begin

section \<open>JavaScript values and strings\<close>

text \<open>
  The repository is one file, \<^verbatim>\<open>js/cpdax.js\<close>: the class \<^verbatim>\<open>cpdax\<close>, which extends the
  generic \<^verbatim>\<open>Exchange\<close> class of \<^verbatim>\<open>js/base/Exchange.js\<close>. The base class is not part of the
  sources at hand, so every inherited method that \<^verbatim>\<open>cpdax\<close> calls
  (\<^verbatim>\<open>implodeParams\<close>, \<^verbatim>\<open>omit\<close>, \<^verbatim>\<open>hmac\<close>, \<^verbatim>\<open>findBroadlyMatchedKey\<close>, ...) is a parameter of
  the functions below, collected in a record per group of methods.

  A string is the list of its code units, one \<^typ>\<open>char\<close> each (code units below 256).
  A number is a finite double, given by its exact rational value, an infinity or
  \<open>NaN\<close>; the two zeros are not told apart.
\<close>

datatype number = Fin rat | PosInf | NegInf | NaN

datatype json =
    JNull
  | JBool bool
  | JNum number
  | JStr string
  | JArr "json list"
  | JObj "(string \<times> json) list"

text \<open>The error classes imported from \<^verbatim>\<open>./base/errors\<close> (line 6).\<close>

datatype ErrorKind =
    NotSupported
  | DDoSProtection
  | AuthenticationError
  | PermissionDenied
  | ArgumentsRequired
  | ExchangeError
  | ExchangeNotAvailable
  | InsufficientFunds
  | InvalidOrder
  | OrderNotFound
  | InvalidNonce

text \<open>
  What a method can throw: an instance of one of the error classes with its message
  (\<open>Exc\<close>), the \<^verbatim>\<open>String\<close> object that \<^verbatim>\<open>new Object (feedback)\<close> builds, or an error
  of the language itself.
\<close>

datatype js_error = SyntaxError | TypeError

datatype thrown =
    Exc ErrorKind string
  | StringObject string
  | Native js_error

text \<open>\<^verbatim>\<open>s.startsWith (k)\<close> and \<^verbatim>\<open>s.indexOf (k)\<close>; the latter is \<open>-1\<close> when \<open>k\<close> does not occur.\<close>

fun startsWith :: "string \<Rightarrow> string \<Rightarrow> bool" where
  "startsWith s [] = True"
| "startsWith [] (k # ks) = False"
| "startsWith (c # s) (k # ks) = (c = k \<and> startsWith s ks)"

fun indexOf_from :: "nat \<Rightarrow> string \<Rightarrow> string \<Rightarrow> int" where
  "indexOf_from i [] k = (if k = [] then int i else - 1)"
| "indexOf_from i (c # s) k =
     (if startsWith (c # s) k then int i else indexOf_from (Suc i) s k)"

definition indexOf :: "string \<Rightarrow> string \<Rightarrow> int" where
  "indexOf s k = indexOf_from 0 s k"

text \<open>
  The names every plain object inherits from \<^verbatim>\<open>Object.prototype\<close>. The operator
  \<^verbatim>\<open>key in obj\<close> is true for the object's own keys and for these.
\<close>

definition object_prototype_keys :: "string list" where
  "object_prototype_keys =
     [''constructor'', ''__defineGetter__'', ''__defineSetter__'', ''hasOwnProperty'',
      ''__lookupGetter__'', ''__lookupSetter__'', ''isPrototypeOf'',
      ''propertyIsEnumerable'', ''toString'', ''valueOf'', ''__proto__'',
      ''toLocaleString'']"

definition has_property :: "(string \<times> 'a) list \<Rightarrow> string \<Rightarrow> bool" where
  "has_property obj key \<longleftrightarrow> key \<in> fst ` set obj \<or> key \<in> set object_prototype_keys"

section \<open>The exchange description\<close>

text \<open>
  The instance state that the methods below read: the fields of the object literal of
  \<^verbatim>\<open>describe ()\<close> (lines 13 to 107) that \<^verbatim>\<open>sign\<close> and \<^verbatim>\<open>handleErrors\<close> use, with the name
  and the rate limit; the tables \<^verbatim>\<open>has\<close>, \<^verbatim>\<open>api\<close> and \<^verbatim>\<open>fees\<close> are read by neither. A table of
  \<^verbatim>\<open>exceptions\<close> is an association list in declaration order, which is the order in which
  JavaScript enumerates the keys. A credential is \<open>None\<close> when it is \<^verbatim>\<open>undefined\<close>.
\<close>

record exchange =
  exchange_id :: string
  name :: string
  version :: string
  rateLimit :: nat
  urls_api_public :: string
  urls_api_private :: string
  exceptions_exact :: "(string \<times> ErrorKind) list"
  exceptions_broad :: "(string \<times> ErrorKind) list"
  apiKey :: "string option"
  secret :: "string option"

text \<open>
  \<^verbatim>\<open>describe ()\<close> deep-extends the defaults of the base class with its object literal;
  each field below is set by the literal.
\<close>

definition describe :: exchange where
  \<open>describe =
     \<lparr> exchange_id = ''cpdax'',
       name = ''Cpdax'',
       version = ''v1'',
       rateLimit = 1500,
       urls_api_public = ''https://www.cpdax.com'',
       urls_api_private = ''https://www.cpdax.com'',
       exceptions_exact =
         [(''temporarily_unavailable'', ExchangeNotAvailable),
          (''Order could not be cancelled.'', OrderNotFound),
          (''No such order found.'', OrderNotFound),
          (''Order price must be positive.'', InvalidOrder),
          (''Could not find a key matching the given X-BFX-APIKEY.'', AuthenticationError),
          (''Key price should be a decimal number, e.g. "123.456"'', InvalidOrder),
          (''Key amount should be a decimal number, e.g. "123.456"'', InvalidOrder),
          (''ERR_RATE_LIMIT'', DDoSProtection),
          (''Ratelimit'', DDoSProtection),
          (''Nonce is too small.'', InvalidNonce),
          (''No summary found.'', ExchangeError),
          (''Cannot evaluate your available balance, please try again'', ExchangeNotAvailable)],
       exceptions_broad =
         [(''This API key does not have permission'', PermissionDenied),
          (''Invalid order: not enough exchange balance for '', InsufficientFunds),
          (''Invalid order: minimum size for '', InvalidOrder),
          (''Invalid order'', InvalidOrder),
          (''The available balance is only'', InsufficientFunds)],
       apiKey = Some ''752d07a5cef56223ed1b0c558fbcfb444f012f4338d132eb46c8ca6c7981928a'',
       secret = Some ''MmIyNDRiYTctMDMzMy00ODkyLThlNTgtZTRhNmRlN2ZjZDZm'' \<rparr>\<close>

section \<open>handleErrors\<close>

text \<open>
  The collaborators of \<^verbatim>\<open>handleErrors\<close> (lines 338 to 365):
  \<^item> \<open>json_parse\<close> is \<^verbatim>\<open>JSON.parse\<close> on a text whose first character is \<^verbatim>\<open>{\<close>: the
    property list of the parsed object (its keys distinct), or \<open>None\<close> when
    \<^verbatim>\<open>JSON.parse\<close> throws its \<^verbatim>\<open>SyntaxError\<close>;
  \<^item> \<open>json\<close> is \<^verbatim>\<open>this.json\<close>, the serialisation of the parsed object;
  \<^item> \<open>toString\<close> is the conversion of a value that is not a string to a property key,
    which the operator \<^verbatim>\<open>in\<close> applies to its left operand;
  \<^item> \<open>findBroadlyMatchedKey\<close> is the inherited method of that name: it returns a key
    of the table, or \<^verbatim>\<open>undefined\<close> (\<open>None\<close>), or throws.
\<close>

record response_env =
  json_parse :: "string \<Rightarrow> (string \<times> json) list option"
  json :: "(string \<times> json) list \<Rightarrow> string"
  toString :: "json \<Rightarrow> string"
  findBroadlyMatchedKey :: "(string \<times> ErrorKind) list \<Rightarrow> json \<Rightarrow> thrown + string option"

definition property_key :: "response_env \<Rightarrow> json \<Rightarrow> string" where
  "property_key E v = (case v of JStr s \<Rightarrow> s | _ \<Rightarrow> toString E v)"

text \<open>
  \<^verbatim>\<open>throw new table[key] (feedback)\<close>: an own key of the table names an error class. The
  inherited \<^verbatim>\<open>constructor\<close> is \<^verbatim>\<open>Object\<close>, and \<^verbatim>\<open>new Object (feedback)\<close> is a
  \<^verbatim>\<open>String\<close> object; any other value is not a constructor, a \<^verbatim>\<open>TypeError\<close>.
\<close>

definition throw_new :: "(string \<times> ErrorKind) list \<Rightarrow> string \<Rightarrow> string \<Rightarrow> thrown" where
  "throw_new table key feedback =
     (case map_of table key of
        Some kind \<Rightarrow> Exc kind feedback
      | None \<Rightarrow> if key = ''constructor'' then StringObject feedback else Native TypeError)"

text \<open>
  Lines 353 to 362, for the message that lines 345 to 352 have found. \<open>Inr ()\<close> is a
  normal return, \<open>Inl t\<close> is \<^verbatim>\<open>throw t\<close>.
\<close>

definition throw_for_message ::
  "response_env \<Rightarrow> exchange \<Rightarrow> string \<Rightarrow> json \<Rightarrow> thrown + unit" where
  "throw_for_message E this feedback message =
     (let exact = exceptions_exact this in
      if has_property exact (property_key E message)
      then Inl (throw_new exact (property_key E message) feedback)
      else
        let broad = exceptions_broad this in
        case findBroadlyMatchedKey E broad message of
          Inl t \<Rightarrow> Inl t
        | Inr (Some broadKey) \<Rightarrow> Inl (throw_new broad broadKey feedback)
        | Inr None \<Rightarrow> Inl (Exc ExchangeError feedback))"

text \<open>
  \<^verbatim>\<open>handleErrors (code, reason, url, method, headers, body)\<close>; the arguments it never reads
  are left out. The names \<^verbatim>\<open>message\<close> and \<^verbatim>\<open>error\<close> are not inherited, so
  \<^verbatim>\<open>'message' in response\<close> asks for an own key of the parsed object.
\<close>

definition handleErrors :: "response_env \<Rightarrow> exchange \<Rightarrow> int \<Rightarrow> string \<Rightarrow> thrown + unit" where
  "handleErrors E this code body =
     (if length body < 2 then Inr ()
      else if code \<ge> 400 then
        (if body ! 0 = CHR ''{'' then
           (case json_parse E body of
              None \<Rightarrow> Inl (Native SyntaxError)
            | Some response \<Rightarrow>
                let feedback = exchange_id this @ '' '' @ json E response in
                (case map_of response ''message'' of
                   Some message \<Rightarrow> throw_for_message E this feedback message
                 | None \<Rightarrow>
                     (case map_of response ''error'' of
                        Some message \<Rightarrow> throw_for_message E this feedback message
                      | None \<Rightarrow> Inl (Exc ExchangeError feedback))))
         else Inr ())
      else Inr ())"

text \<open>
  Modelled from the spec: \<^verbatim>\<open>findBroadlyMatchedKey\<close> of the base class, which is not among
  the sources. In the spec's words, the broad lookup "returns the first table entry (in
  table order) whose key is a substring of the message".
\<close>

fun first_broad_key :: "(string \<times> 'a) list \<Rightarrow> string \<Rightarrow> string option" where
  "first_broad_key [] message = None"
| "first_broad_key ((key, v) # table) message =
     (if indexOf message key \<ge> 0 then Some key else first_broad_key table message)"

subsection \<open>A concrete environment for sample bodies\<close>

text \<open>
  To run \<^verbatim>\<open>handleErrors\<close> on sample bodies the parameters need values. \<open>parse_flat\<close>
  reads the fragment of JSON the samples use: one object whose members are strings, with
  no white space and no escape sequences, on which it agrees with \<^verbatim>\<open>JSON.parse\<close>; it
  rejects every other text. \<open>json_flat\<close> writes such an object back.
\<close>

datatype scan_state = BeforeKey | InKey | AfterKey | BeforeValue | InValue | AfterValue

fun put :: "string \<Rightarrow> json \<Rightarrow> (string \<times> json) list \<Rightarrow> (string \<times> json) list" where
  "put k v [] = [(k, v)]"
| "put k v ((k', v') # obj) = (if k = k' then (k, v) # obj else (k', v') # put k v obj)"

definition plain_char :: "char \<Rightarrow> bool" where
  "plain_char c \<longleftrightarrow> c \<noteq> CHR 0x22 \<and> c \<noteq> CHR 0x5C \<and> 32 \<le> (of_char c :: nat)"

fun scan_members ::
  "scan_state \<Rightarrow> string \<Rightarrow> string \<Rightarrow> (string \<times> json) list \<Rightarrow> string \<Rightarrow> (string \<times> json) list option"
  where
  "scan_members st k v obj [] = None"
| "scan_members st k v obj (c # cs) =
     (case st of
        BeforeKey \<Rightarrow> if c = CHR 0x22 then scan_members InKey [] [] obj cs else None
      | InKey \<Rightarrow>
          if c = CHR 0x22 then scan_members AfterKey k [] obj cs
          else if plain_char c then scan_members InKey (k @ [c]) [] obj cs else None
      | AfterKey \<Rightarrow> if c = CHR '':'' then scan_members BeforeValue k [] obj cs else None
      | BeforeValue \<Rightarrow> if c = CHR 0x22 then scan_members InValue k [] obj cs else None
      | InValue \<Rightarrow>
          if c = CHR 0x22 then scan_members AfterValue [] [] (put k (JStr v) obj) cs
          else if plain_char c then scan_members InValue k (v @ [c]) obj cs else None
      | AfterValue \<Rightarrow>
          if c = CHR '','' then scan_members BeforeKey [] [] obj cs
          else if c = CHR ''}'' \<and> cs = [] then Some obj else None)"

definition parse_flat :: "string \<Rightarrow> (string \<times> json) list option" where
  "parse_flat body =
     (case body of
        [] \<Rightarrow> None
      | c # cs \<Rightarrow>
          if c \<noteq> CHR ''{'' then None
          else if cs = ''}'' then Some []
          else scan_members BeforeKey [] [] [] cs)"

fun json_members :: "(string \<times> json) list \<Rightarrow> string list" where
  "json_members [] = []"
| "json_members ((k, v) # obj) =
     ([CHR 0x22] @ k @ [CHR 0x22] @ '':'' @
        (case v of JStr s \<Rightarrow> [CHR 0x22] @ s @ [CHR 0x22] | _ \<Rightarrow> ''null''))
     # json_members obj"

fun join :: "string \<Rightarrow> string list \<Rightarrow> string" where
  "join sep [] = []"
| "join sep [x] = x"
| "join sep (x # y # ys) = x @ sep @ join sep (y # ys)"

definition json_flat :: "(string \<times> json) list \<Rightarrow> string" where
  "json_flat obj = ''{'' @ join '','' (json_members obj) @ ''}''"

text \<open>
  The conversion of the values that \<open>parse_flat\<close> can deliver and of the constants; it
  is never asked for a number or an array.
\<close>

definition toString_flat :: "json \<Rightarrow> string" where
  "toString_flat v =
     (case v of
        JStr s \<Rightarrow> s
      | JNull \<Rightarrow> ''null''
      | JBool b \<Rightarrow> (if b then ''true'' else ''false'')
      | JObj obj \<Rightarrow> ''[object Object]''
      | _ \<Rightarrow> [])"

text \<open>
  The inherited lookup on a message string, by \<open>first_broad_key\<close>; a message that is
  not a string has no \<^verbatim>\<open>indexOf\<close> for the samples' purposes.
\<close>

definition broad_lookup :: "(string \<times> ErrorKind) list \<Rightarrow> json \<Rightarrow> thrown + string option" where
  "broad_lookup table message =
     (case message of
        JStr m \<Rightarrow> Inr (first_broad_key table m)
      | _ \<Rightarrow> Inl (Native TypeError))"

definition sample_env :: response_env where
  "sample_env =
     \<lparr> json_parse = parse_flat, json = json_flat, toString = toString_flat,
       findBroadlyMatchedKey = broad_lookup \<rparr>"

section \<open>sign\<close>

text \<open>
  The collaborators of \<^verbatim>\<open>sign\<close> (lines 296 to 335), all inherited from the base class
  but the last two: \<open>implodeParams\<close>, \<open>extractParams\<close>, \<open>omit\<close> and \<open>urlencode\<close>;
  \<open>hmac\<close>, which receives the secret as the instance holds it (possibly
  \<^verbatim>\<open>undefined\<close>) and may throw; \<open>nonce\<close>, the number that \<^verbatim>\<open>this.nonce ()\<close> returns in
  this call; \<open>stringify\<close>, which is \<^verbatim>\<open>JSON.stringify\<close>. The values of the parameters of
  a call are only ever handed to these, so their type \<open>'v\<close> is left open.
\<close>

record 'v request_env =
  implodeParams :: "string \<Rightarrow> (string \<times> 'v) list \<Rightarrow> string"
  extractParams :: "string \<Rightarrow> string list"
  omit :: "(string \<times> 'v) list \<Rightarrow> string list \<Rightarrow> (string \<times> 'v) list"
  urlencode :: "(string \<times> 'v) list \<Rightarrow> string"
  stringify :: "(string \<times> 'v) list \<Rightarrow> string"
  hmac :: "string \<Rightarrow> string option \<Rightarrow> string \<Rightarrow> thrown + string"
  nonce :: nat

text \<open>
  The argument \<^verbatim>\<open>api\<close> is a key of the table \<^verbatim>\<open>api\<close> of \<^verbatim>\<open>describe ()\<close> (lines 44 to 73),
  and \<^verbatim>\<open>this.urls['api'][api]\<close> is the entry of lines 36 to 39 for it.
\<close>

datatype api = Public | Private

definition urls_api :: "exchange \<Rightarrow> api \<Rightarrow> string" where
  "urls_api this a = (case a of Public \<Rightarrow> urls_api_public this | Private \<Rightarrow> urls_api_private this)"

text \<open>
  The value of a header: a string, the number of the nonce, or \<^verbatim>\<open>undefined\<close>. The body
  of a request: \<^verbatim>\<open>undefined\<close>, a text that the caller passed, or the object \<^verbatim>\<open>params\<close>.
\<close>

datatype header_value = HStr string | HNum nat | HUndefined

datatype 'v body = BUndefined | BText string | BParams "(string \<times> 'v) list"

record 'v request =
  r_url :: string
  r_method :: string
  r_body :: "'v body"
  r_headers :: "(string \<times> header_value) list option"

text \<open>
  The decimal digits of a natural number, which is how JavaScript writes a non-negative
  integer below \<open>10\<^sup>2\<^sup>1\<close>; a nonce is a count of seconds or milliseconds.
\<close>

definition digit_char :: "nat \<Rightarrow> char" where
  "digit_char d = ''0123456789'' ! d"

fun string_of_nat :: "nat \<Rightarrow> string" where
  "string_of_nat n =
     (if n < 10 then [digit_char n]
      else string_of_nat (n div 10) @ [digit_char (n mod 10)])"

declare string_of_nat.simps [simp del]

text \<open>
  \<^verbatim>\<open>this.apiKey + timestamp\<close>: a string and a number are concatenated;
  \<^verbatim>\<open>undefined\<close> and a number are added as numbers, which is \<open>NaN\<close>, and the later
  \<^verbatim>\<open>+\<close> with a string writes it as \<^verbatim>\<open>NaN\<close>.
\<close>

definition plus_timestamp :: "string option \<Rightarrow> nat \<Rightarrow> string" where
  "plus_timestamp key timestamp =
     (case key of Some k \<Rightarrow> k @ string_of_nat timestamp | None \<Rightarrow> ''NaN'')"

definition header_of :: "string option \<Rightarrow> header_value" where
  "header_of key = (case key of Some k \<Rightarrow> HStr k | None \<Rightarrow> HUndefined)"

text \<open>\<^verbatim>\<open>method.toUpperCase ()\<close> for a method name in ASCII.\<close>

definition upper_char :: "char \<Rightarrow> char" where
  "upper_char c =
     (case map_of (zip ''abcdefghijklmnopqrstuvwxyz'' ''ABCDEFGHIJKLMNOPQRSTUVWXYZ'') c of
        Some u \<Rightarrow> u
      | None \<Rightarrow> c)"

definition toUpperCase :: "string \<Rightarrow> string" where
  "toUpperCase s = map upper_char s"

text \<open>
  \<^verbatim>\<open>sign (path, api, method, params, headers, body)\<close>. The assignments to \<^verbatim>\<open>url\<close> of
  lines 300 and 305 are overwritten by line 332, and the \<^verbatim>\<open>query\<close> of line 312 is never
  read. \<^verbatim>\<open>params\<close> is an object, which is truthy, so the test of line 318 is the test of
  the method.
\<close>

definition sign ::
  "'v request_env \<Rightarrow> exchange \<Rightarrow> string \<Rightarrow> api \<Rightarrow> string \<Rightarrow> (string \<times> 'v) list \<Rightarrow>
   (string \<times> header_value) list option \<Rightarrow> 'v body \<Rightarrow> thrown + 'v request" where
  "sign B this path a method params headers body =
     (let request = ''/'' @ implodeParams B path params;
          request = ''/'' @ version this @ request;
          query = omit B params (extractParams B path);
          request =
            (if (a = Public \<or> indexOf path ''/hist'' \<ge> 0) \<and> query \<noteq> []
             then request @ ''?'' @ urlencode B query else request)
      in
        if a = Private then
          (let timestamp = nonce B;
               payload = plus_timestamp (apiKey this) timestamp @ toUpperCase method @ request;
               body = (if method = ''POST'' then BParams params else body);
               payload = (if method = ''POST'' then payload @ stringify B params else payload)
           in
             case hmac B payload (secret this) ''sha256'' of
               Inl t \<Rightarrow> Inl t
             | Inr signature \<Rightarrow>
                 Inr \<lparr> r_url = urls_api this a @ request, r_method = method, r_body = body,
                       r_headers = Some
                         [(''CP-ACCESS-KEY'', header_of (apiKey this)),
                          (''CP-ACCESS-TIMESTAMP'', HNum timestamp),
                          (''CP-ACCESS-DIGEST'', HStr signature)] \<rparr>)
        else
          Inr \<lparr> r_url = urls_api this a @ request, r_method = method, r_body = body,
                r_headers = headers \<rparr>)"

subsection \<open>A concrete environment for sample requests\<close>

text \<open>
  Modelled from the spec: the inherited helpers of the request builder, which are not
  among the sources. The spec has the builder substitute \<^verbatim>\<open>{name}\<close> placeholders of the
  path from the parameters, keep the parameters "not consumed as path placeholders", and
  write them as \<^verbatim>\<open>?key=value&...\<close>. They serve to run \<^verbatim>\<open>sign\<close> on sample requests whose
  parameter values are strings without characters that need escaping.
\<close>

fun replace_first :: "string \<Rightarrow> string \<Rightarrow> string \<Rightarrow> string" where
  "replace_first [] pat rep = []"
| "replace_first (c # s) pat rep =
     (if startsWith (c # s) pat then rep @ drop (length pat) (c # s)
      else c # replace_first s pat rep)"

definition implode_sample :: "string \<Rightarrow> (string \<times> string) list \<Rightarrow> string" where
  "implode_sample path params =
     fold (\<lambda>(k, v) s. replace_first s (''{'' @ k @ ''}'') v) params path"

fun extract_from :: "string option \<Rightarrow> string \<Rightarrow> string list" where
  "extract_from st [] = []"
| "extract_from st (c # s) =
     (if c = CHR ''{'' then extract_from (Some []) s
      else case st of
        None \<Rightarrow> extract_from None s
      | Some nm \<Rightarrow>
          if c = CHR ''}'' then (if nm = [] then [] else [nm]) @ extract_from None s
          else if c = CHR ''/'' then extract_from None s
          else extract_from (Some (nm @ [c])) s)"

definition omit_sample :: "(string \<times> string) list \<Rightarrow> string list \<Rightarrow> (string \<times> string) list" where
  "omit_sample params keys = filter (\<lambda>(k, v). k \<notin> set keys) params"

definition urlencode_sample :: "(string \<times> string) list \<Rightarrow> string" where
  "urlencode_sample query = join ''&'' (map (\<lambda>(k, v). k @ ''='' @ v) query)"

definition stringify_sample :: "(string \<times> string) list \<Rightarrow> string" where
  "stringify_sample params = json_flat (map (\<lambda>(k, v). (k, JStr v)) params)"

text \<open>
  The digest is kept symbolic: the sample \<open>hmac\<close> writes down the arguments it was called
  with. Without a secret it throws, as a keyed hash without a key would.
\<close>

definition hmac_sample :: "string \<Rightarrow> string option \<Rightarrow> string \<Rightarrow> thrown + string" where
  "hmac_sample payload key algorithm =
     (case key of
        None \<Rightarrow> Inl (Native TypeError)
      | Some k \<Rightarrow> Inr (''hmac-'' @ algorithm @ ''('' @ k @ '','' @ payload @ '')''))"

definition sample_request_env :: "string request_env" where
  "sample_request_env =
     \<lparr> implodeParams = implode_sample, extractParams = extract_from None,
       omit = omit_sample, urlencode = urlencode_sample, stringify = stringify_sample,
       hmac = hmac_sample, nonce = 1541030400 \<rparr>"

section \<open>fetchMarkets\<close>

text \<open>
  The collaborators of \<^verbatim>\<open>fetchMarkets\<close> (lines 158 to 202):
  \<^item> \<open>commonCurrencyCode\<close>, inherited, which receives \<^verbatim>\<open>undefined\<close> (\<open>None\<close>) when the
    product id has no second segment, and may throw;
  \<^item> \<open>safeFloat\<close>, inherited: the number under a key of the raw record, or
    \<^verbatim>\<open>undefined\<close>;
  \<^item> \<open>round_double\<close>, the rounding of an exact product to a double, which is what the
    operator \<^verbatim>\<open>*\<close> does on two finite numbers.
  The answer of \<^verbatim>\<open>publicGetProducts ()\<close> is the argument \<open>markets\<close>, a list of parsed
  objects.
\<close>

record market_env =
  commonCurrencyCode :: "string option \<Rightarrow> thrown + string option"
  safeFloat :: "(string \<times> json) list \<Rightarrow> string \<Rightarrow> number option"
  round_double :: "rat \<Rightarrow> number"

text \<open>The operator \<^verbatim>\<open>*\<close> on numbers, and on operands that may be \<^verbatim>\<open>undefined\<close>.\<close>

fun times_number :: "(rat \<Rightarrow> number) \<Rightarrow> number \<Rightarrow> number \<Rightarrow> number" where
  "times_number rnd NaN y = NaN"
| "times_number rnd x NaN = NaN"
| "times_number rnd (Fin x) (Fin y) = rnd (x * y)"
| "times_number rnd (Fin x) PosInf = (if x = 0 then NaN else if 0 < x then PosInf else NegInf)"
| "times_number rnd (Fin x) NegInf = (if x = 0 then NaN else if 0 < x then NegInf else PosInf)"
| "times_number rnd PosInf (Fin y) = (if y = 0 then NaN else if 0 < y then PosInf else NegInf)"
| "times_number rnd NegInf (Fin y) = (if y = 0 then NaN else if 0 < y then NegInf else PosInf)"
| "times_number rnd PosInf PosInf = PosInf"
| "times_number rnd PosInf NegInf = NegInf"
| "times_number rnd NegInf PosInf = NegInf"
| "times_number rnd NegInf NegInf = PosInf"

definition to_number :: "number option \<Rightarrow> number" where
  "to_number v = (case v of None \<Rightarrow> NaN | Some n \<Rightarrow> n)"

definition js_times :: "(rat \<Rightarrow> number) \<Rightarrow> number option \<Rightarrow> number option \<Rightarrow> number" where
  "js_times rnd x y = times_number rnd (to_number x) (to_number y)"

text \<open>
  \<^verbatim>\<open>s.split (d)\<close> for a separator of one character, the element of an array at an index
  (\<^verbatim>\<open>undefined\<close> beyond its end), and the text of a value in a concatenation.
\<close>

fun split :: "string \<Rightarrow> char \<Rightarrow> string list" where
  "split [] d = [[]]"
| "split (c # s) d =
     (if c = d then [] # split s d
      else case split s d of w # ws \<Rightarrow> (c # w) # ws | [] \<Rightarrow> [[c]])"

definition at_index :: "'a list \<Rightarrow> nat \<Rightarrow> 'a option" where
  "at_index xs i = (if i < length xs then Some (xs ! i) else None)"

definition text_of :: "string option \<Rightarrow> string" where
  "text_of v = (case v of None \<Rightarrow> ''undefined'' | Some s \<Rightarrow> s)"

text \<open>The entry that the loop pushes (lines 188 to 199), leaf records first.\<close>

record range =
  range_min :: "number option"
  range_max :: "number option"

record market_precision =
  precision_price :: "json option"
  precision_amount :: "json option"

record market_limits =
  amount :: range
  price :: range
  cost :: range

record market =
  market_id :: string
  symbol :: string
  base :: "string option"
  quote :: "string option"
  baseId :: "string option"
  quoteId :: "string option"
  active :: bool
  precision :: market_precision
  limits :: market_limits
  info :: "(string \<times> json) list"

text \<open>
  One turn of the loop (lines 162 to 199). \<^verbatim>\<open>id.split\<close> is a \<^verbatim>\<open>TypeError\<close> unless
  \<^verbatim>\<open>market['product_id']\<close> is a string.
\<close>

definition market_entry :: "market_env \<Rightarrow> (string \<times> json) list \<Rightarrow> thrown + market" where
  "market_entry M raw =
     (case map_of raw ''product_id'' of
        Some (JStr product_id) \<Rightarrow>
          (case commonCurrencyCode M (at_index (split product_id CHR ''-'') 0) of
             Inl t \<Rightarrow> Inl t
           | Inr base_code \<Rightarrow>
               (case commonCurrencyCode M (at_index (split product_id CHR ''-'') 1) of
                  Inl t \<Rightarrow> Inl t
                | Inr quote_code \<Rightarrow>
                    Inr \<lparr> market_id = product_id,
                          symbol = text_of base_code @ ''/'' @ text_of quote_code,
                          base = base_code,
                          quote = quote_code,
                          baseId = at_index (split product_id CHR ''-'') 0,
                          quoteId = at_index (split product_id CHR ''-'') 1,
                          active = True,
                          precision =
                            \<lparr> precision_price = map_of raw ''quote_increment'',
                              precision_amount = map_of raw ''unit_size'' \<rparr>,
                          limits =
                            \<lparr> amount =
                                \<lparr> range_min = safeFloat M raw ''min_size'',
                                  range_max = safeFloat M raw ''max_size'' \<rparr>,
                              price = \<lparr> range_min = Some (Fin 2), range_max = Some (Fin 100) \<rparr>,
                              cost =
                                \<lparr> range_min =
                                    Some (js_times (round_double M) (safeFloat M raw ''min_size'')
                                      (Some (Fin 2))),
                                  range_max = None \<rparr> \<rparr>,
                          info = raw \<rparr>))
      | _ \<Rightarrow> Inl (Native TypeError))"

text \<open>The loop, with \<open>result\<close> as it stands before the turn, and \<^verbatim>\<open>fetchMarkets\<close>.\<close>

fun fetchMarkets_loop ::
  "market_env \<Rightarrow> (string \<times> json) list list \<Rightarrow> market list \<Rightarrow> thrown + market list" where
  "fetchMarkets_loop M [] result = Inr result"
| "fetchMarkets_loop M (raw # markets) result =
     (case market_entry M raw of
        Inl t \<Rightarrow> Inl t
      | Inr entry \<Rightarrow> fetchMarkets_loop M markets (result @ [entry]))"

definition fetchMarkets :: "market_env \<Rightarrow> (string \<times> json) list list \<Rightarrow> thrown + market list" where
  "fetchMarkets M markets = fetchMarkets_loop M markets []"

subsection \<open>A concrete environment for sample markets\<close>

text \<open>
  Modelled from the spec: the inherited helpers of the normalizer, which are not among
  the sources. The spec has base and quote "canonicalized from baseId/quoteId (uppercase +
  alias table)", here with an empty alias table, and has absent fields "yield undefined".
  The products of the samples are exact, so the rounding leaves them as they are.
\<close>

definition currency_code_sample :: "string option \<Rightarrow> thrown + string option" where
  "currency_code_sample code = Inr (map_option toUpperCase code)"

definition safeFloat_sample :: "(string \<times> json) list \<Rightarrow> string \<Rightarrow> number option" where
  "safeFloat_sample raw key =
     (case map_of raw key of Some (JNum (Fin x)) \<Rightarrow> Some (Fin x) | _ \<Rightarrow> None)"

definition sample_market_env :: market_env where
  "sample_market_env =
     \<lparr> commonCurrencyCode = currency_code_sample, safeFloat = safeFloat_sample,
       round_double = Fin \<rparr>"

text \<open>
  A sample record of \<^verbatim>\<open>products\<close>, with sizes that are exact doubles, and the market that
  \<^verbatim>\<open>fetchMarkets\<close> makes of it.
\<close>

definition sample_product :: "(string \<times> json) list" where
  "sample_product =
     [(''product_id'', JStr ''BTC-KRW''), (''quote_increment'', JNum (Fin 1)),
      (''min_size'', JNum (Fin (1 / 2))), (''max_size'', JNum (Fin 100))]"

definition sample_entry :: market where
  "sample_entry =
     \<lparr> market_id = ''BTC-KRW'', symbol = ''BTC/KRW'', base = Some ''BTC'',
             quote = Some ''KRW'', baseId = Some ''BTC'', quoteId = Some ''KRW'', active = True,
             precision = \<lparr> precision_price = Some (JNum (Fin 1)), precision_amount = None \<rparr>,
             limits =
               \<lparr> amount = \<lparr> range_min = Some (Fin (1 / 2)), range_max = Some (Fin 100) \<rparr>,
                 price = \<lparr> range_min = Some (Fin 2), range_max = Some (Fin 100) \<rparr>,
                 cost = \<lparr> range_min = Some (Fin 1), range_max = None \<rparr> \<rparr>,
             info = sample_product \<rparr>"

section \<open>describe and the construction of an instance\<close>

text \<open>
  The values of a configuration object: \<^verbatim>\<open>undefined\<close>, strings, numbers, truth values,
  error classes, arrays, and objects as lists of their properties in declaration order.
\<close>

datatype cfg =
    CUndefined
  | CString string
  | CNumber number
  | CBool bool
  | CClass ErrorKind
  | CArray "cfg list"
  | CDict "(string \<times> cfg) list"

text \<open>
  The object literal of \<^verbatim>\<open>describe ()\<close> (lines 13 to 107) as such a value. The tables of
  \<^verbatim>\<open>exceptions\<close> are those of \<open>describe\<close> above, with the error classes as values. The
  table \<^verbatim>\<open>fees\<close> (lines 74 to 81) holds two quotients of floating-point numbers and is
  left out; nothing below reads it.
\<close>

definition describe_literal :: "(string \<times> cfg) list" where
  "describe_literal =
     [(''id'', CString ''cpdax''),
      (''name'', CString ''Cpdax''),
      (''countries'', CArray [CString ''KR'']),
      (''version'', CString ''v1''),
      (''rateLimit'', CNumber (Fin 1500)),
      (''certified'', CBool True),
      (''has'', CDict
         [(''fetchCurrencies'', CBool True), (''fetchTradingFees'', CBool True),
          (''fetchOrderBook'', CBool True), (''fetchOHLCV'', CBool False),
          (''fetchMarkets'', CBool True), (''fetchOrder'', CBool True),
          (''fetchOrders'', CBool True), (''fetchTickers'', CBool True),
          (''fetchTransactions'', CBool True), (''fetchDeposits'', CBool False),
          (''fetchWithdrawals'', CBool False)]),
      (''urls'', CDict
         [(''logo'', CString ''https://user-images.githubusercontent.com/1294454/27766244-e328a50c-5ed2-11e7-947b-041416579bb3.jpg''),
          (''api'', CDict
             [(''public'', CString ''https://www.cpdax.com''),
              (''private'', CString ''https://www.cpdax.com'')]),
          (''www'', CString ''https://www.cpdax.com''),
          (''doc'', CString ''https://apidocs-eng.cpdax.com/reference''),
          (''fees'', CString ''https://www.cpdax.com/static/en/fee-schedule.html'')]),
      (''api'', CDict
         [(''public'', CDict
             [(''get'', CArray
                 [CString ''currencies'', CString ''products'', CString ''tickers'',
                  CString ''tickers/detailed'', CString ''tickers/{symbol}'',
                  CString ''tickers/{symbol}/detailed'', CString ''trades/{symbol}'',
                  CString ''orderbook/{symbol}''])]),
          (''private'', CDict
             [(''post'', CArray [CString ''orders'']),
              (''get'', CArray
                 [CString ''orders/{symbol}'', CString ''orders/{symbol}/{id}'',
                  CString ''fee-rates'', CString ''balance'',
                  CString ''transactions/{product_id}'']),
              (''delete'', CArray
                 [CString ''orders/{symbol}/{id}'', CString ''orders/{symbol}''])])]),
      (''exceptions'', CDict
         [(''exact'', CDict (map (\<lambda>(k, e). (k, CClass e)) (exceptions_exact describe))),
          (''broad'', CDict (map (\<lambda>(k, e). (k, CClass e)) (exceptions_broad describe)))]),
      (''apiKey'', CString ''752d07a5cef56223ed1b0c558fbcfb444f012f4338d132eb46c8ca6c7981928a''),
      (''secret'', CString ''MmIyNDRiYTctMDMzMy00ODkyLThlNTgtZTRhNmRlN2ZjZDZm'')]"

text \<open>
  \<^verbatim>\<open>describe ()\<close> itself (line 13) is \<^verbatim>\<open>this.deepExtend (super.describe (), { ... })\<close>.
  Both \<^verbatim>\<open>deepExtend\<close> and the description of the base class are inherited, so they are
  parameters.
\<close>

definition describe_object :: "(cfg \<Rightarrow> cfg \<Rightarrow> cfg) \<Rightarrow> (string \<times> cfg) list \<Rightarrow> cfg" where
  "describe_object deepExtend super_describe =
     deepExtend (CDict super_describe) (CDict describe_literal)"

text \<open>
  Modelled from the spec: \<^verbatim>\<open>deepExtend\<close> and the constructor of the base class
  \<^verbatim>\<open>base/Exchange.js\<close>, which are not among the sources. The spec speaks of them only
  in passing: the credentials are "ambient" state of the client (section 9), and the
  configuration of the venue reaches the client through "virtual-method overriding of a
  shared base class" rather than being "injected at construction". What is asked of
  \<^verbatim>\<open>deepExtend\<close> is \<open>overlay\<close>: a string as the right operand is the result; and
  of two objects, the right one with distinct keys, the result is an object that has the
  right operand's strings under their keys and the left operand's values under the keys
  the right operand lacks.
\<close>

definition overlay :: "(cfg \<Rightarrow> cfg \<Rightarrow> cfg) \<Rightarrow> bool" where
  "overlay deepExtend \<longleftrightarrow>
     (\<forall>a s. deepExtend a (CString s) = CString s)
     \<and> (\<forall>a b. distinct (map fst b) \<longrightarrow>
          (\<exists>c. deepExtend (CDict a) (CDict b) = CDict c
             \<and> (\<forall>k s. map_of b k = Some (CString s) \<longrightarrow> map_of c k = Some (CString s))
             \<and> (\<forall>k. map_of b k = None \<longrightarrow> map_of c k = map_of a k)))"

text \<open>
  Modelled from the spec: the constructor of the base class, which is not among the
  sources. It lays the configuration of the user over the description, and assigns
  every property of the outcome to the instance, over the value that the instance has
  for it by default. The result lists the properties so assigned; \<open>property\<close> is
  \<^verbatim>\<open>obj[key]\<close>.
\<close>

definition property :: "(string \<times> cfg) list \<Rightarrow> string \<Rightarrow> cfg" where
  "property obj key = (case map_of obj key of Some v \<Rightarrow> v | None \<Rightarrow> CUndefined)"

definition construct ::
  "(cfg \<Rightarrow> cfg \<Rightarrow> cfg) \<Rightarrow> (string \<times> cfg) list \<Rightarrow> (string \<times> cfg) list \<Rightarrow>
   (string \<times> cfg) list \<Rightarrow> (string \<times> cfg) list" where
  "construct deepExtend super_describe defaults userConfig =
     (case deepExtend (describe_object deepExtend super_describe) (CDict userConfig) of
        CDict config \<Rightarrow> map (\<lambda>(p, v). (p, deepExtend (property defaults p) v)) config
      | _ \<Rightarrow> [])"

text \<open>
  Modelled from the spec: a \<^verbatim>\<open>deepExtend\<close> to build sample instances with, a merge that
  has the two properties of \<open>overlay\<close>. An operand on the right that is no object is
  the result; the properties of an object on the right are merged, one after the
  other, into those of the object on the left, and \<open>assign\<close> is \<^verbatim>\<open>out[k] = v\<close>.
\<close>

fun assign :: "string \<Rightarrow> cfg \<Rightarrow> (string \<times> cfg) list \<Rightarrow> (string \<times> cfg) list" where
  "assign k v [] = [(k, v)]"
| "assign k v ((k', v') # obj) = (if k = k' then (k, v) # obj else (k', v') # assign k v obj)"

function deep_extend :: "cfg \<Rightarrow> cfg \<Rightarrow> cfg"
  and extend_entries :: "(string \<times> cfg) list \<Rightarrow> (string \<times> cfg) list \<Rightarrow> (string \<times> cfg) list" where
  "deep_extend a (CDict b) = CDict (extend_entries (case a of CDict out \<Rightarrow> out | _ \<Rightarrow> []) b)"
| "deep_extend a CUndefined = CUndefined"
| "deep_extend a (CString s) = CString s"
| "deep_extend a (CNumber n) = CNumber n"
| "deep_extend a (CBool f) = CBool f"
| "deep_extend a (CClass e) = CClass e"
| "deep_extend a (CArray xs) = CArray xs"
| "extend_entries out [] = out"
| "extend_entries out ((k, v) # b) = extend_entries (assign k (deep_extend (property out k) v) out) b"
  by pat_completeness auto
termination
  by (relation "measure (\<lambda>x. case x of Inl (a, b) \<Rightarrow> size b | Inr (out, b) \<Rightarrow> size_list (size_prod (\<lambda>_. 0) size) b)")
    auto

section \<open>Strings and lists\<close>

text \<open>\<^verbatim>\<open>s.indexOf (k) >= 0\<close> says that \<open>k\<close> occurs in \<open>s\<close>.\<close>

lemma startsWith_iff: "startsWith s k \<longleftrightarrow> (\<exists>q. s = k @ q)"
  by (induction s k rule: startsWith.induct) auto

lemma indexOf_from_nonneg_iff: "0 \<le> indexOf_from i s k \<longleftrightarrow> (\<exists>p q. s = p @ k @ q)"
proof (induction s arbitrary: i)
  case Nil
  then show ?case by simp
next
  case (Cons c s)
  show ?case
  proof (cases "startsWith (c # s) k")
    case True
    then obtain q where "c # s = k @ q" by (auto simp: startsWith_iff)
    then have "c # s = [] @ k @ q" by simp
    with True show ?thesis by (metis indexOf_from.simps(2) of_nat_0_le_iff)
  next
    case False
    have "(\<exists>p q. c # s = p @ k @ q) \<longleftrightarrow> (\<exists>p q. s = p @ k @ q)"
    proof
      assume "\<exists>p q. c # s = p @ k @ q"
      then obtain p q where pq: "c # s = p @ k @ q" by blast
      show "\<exists>p q. s = p @ k @ q"
      proof (cases p)
        case Nil
        with pq False show ?thesis by (simp add: startsWith_iff)
      next
        case (Cons a p')
        with pq show ?thesis by auto
      qed
    next
      assume "\<exists>p q. s = p @ k @ q"
      then obtain p q where "s = p @ k @ q" by blast
      then have "c # s = (c # p) @ k @ q" by simp
      then show "\<exists>p q. c # s = p @ k @ q" by blast
    qed
    with False Cons.IH [of "Suc i"] show ?thesis by simp
  qed
qed

lemma indexOf_nonneg_iff: "0 \<le> indexOf s k \<longleftrightarrow> (\<exists>p q. s = p @ k @ q)"
  by (simp add: indexOf_def indexOf_from_nonneg_iff)

text \<open>
  \<^verbatim>\<open>s.split (d)\<close> cuts \<open>s\<close> at every \<open>d\<close>: joining the pieces with \<open>d\<close> gives \<open>s\<close> back, the
  first piece is the text before the first \<open>d\<close>, and there is a second piece exactly
  when \<open>d\<close> occurs.
\<close>

lemma split_nonempty: "split s d \<noteq> []"
  by (induction s) (auto split: list.splits)

lemma split_head: "\<exists>ws. split s d = takeWhile (\<lambda>c. c \<noteq> d) s # ws"
  by (induction s) (auto split: list.splits)

lemma split_first: "at_index (split s d) 0 = Some (takeWhile (\<lambda>c. c \<noteq> d) s)"
  using split_head [of s d] by (auto simp: at_index_def)

lemma split_no_separator: "d \<notin> set s \<Longrightarrow> split s d = [s]"
  by (induction s) auto

lemma split_two:
  assumes "d \<in> set s"
  shows "\<exists>ws. split s d =
    takeWhile (\<lambda>c. c \<noteq> d) s # takeWhile (\<lambda>c. c \<noteq> d) (tl (dropWhile (\<lambda>c. c \<noteq> d) s)) # ws"
  using assms
proof (induction s)
  case Nil
  then show ?case by simp
next
  case (Cons c s)
  show ?case
  proof (cases "c = d")
    case True
    with split_head [of s d] show ?thesis by auto
  next
    case False
    with Cons.prems have "d \<in> set s" by simp
    from Cons.IH [OF this] False show ?thesis by auto
  qed
qed

lemma split_second:
  "at_index (split s d) (Suc 0) =
     (if d \<in> set s then Some (takeWhile (\<lambda>c. c \<noteq> d) (tl (dropWhile (\<lambda>c. c \<noteq> d) s)))
      else None)"
proof (cases "d \<in> set s")
  case True
  from split_two [OF this] show ?thesis using True by (auto simp: at_index_def)
next
  case False
  then show ?thesis by (simp add: split_no_separator at_index_def)
qed

lemma join_split: "join [d] (split s d) = s"
proof (induction s)
  case Nil
  then show ?case by simp
next
  case (Cons c s)
  obtain w ws where ws: "split s d = w # ws"
    using split_nonempty [of s d] by (cases "split s d") auto
  with Cons show ?case by (cases ws) auto
qed

section \<open>Properties of handleErrors\<close>

text \<open>
  The lookup of the spec returns the first key in table order that occurs in the
  message, and that key is a key of the table.
\<close>

lemma first_broad_key_split:
  assumes "table = pre @ (key, kind) # post" and "0 \<le> indexOf m key"
    and "\<forall>k\<in>fst ` set pre. indexOf m k < 0"
  shows "first_broad_key table m = Some key \<and> map_of table key = Some kind"
  using assms
proof (induction pre arbitrary: table)
  case Nil
  then show ?case by simp
next
  case (Cons e pre)
  obtain k v where e: "e = (k, v)" by (cases e)
  from Cons.prems e have k: "indexOf m k < 0" by simp
  with Cons.prems(2) have "k \<noteq> key" by auto
  moreover from Cons.prems have "\<forall>k\<in>fst ` set pre. indexOf m k < 0" by simp
  ultimately show ?case using Cons.IH [OF refl Cons.prems(2)] Cons.prems(1) e k by simp
qed

lemma first_broad_key_SomeD:
  "first_broad_key table m = Some key \<Longrightarrow> 0 \<le> indexOf m key \<and> key \<in> fst ` set table"
  by (induction table m rule: first_broad_key.induct) (auto split: if_splits)

text \<open>The two tiers of \<open>throw_for_message\<close> on a message string.\<close>

lemma throw_for_message_exact:
  assumes "map_of (exceptions_exact this) m = Some kind"
  shows "throw_for_message E this fb (JStr m) = Inl (Exc kind fb)"
proof -
  from assms have "m \<in> fst ` set (exceptions_exact this)"
    by (metis map_of_eq_None_iff option.distinct(1))
  with assms show ?thesis
    by (simp add: throw_for_message_def has_property_def property_key_def throw_new_def)
qed

lemma throw_for_message_broad:
  assumes "map_of (exceptions_exact this) m = None" and "m \<notin> set object_prototype_keys"
    and "findBroadlyMatchedKey E (exceptions_broad this) (JStr m) = Inr (Some key)"
    and "map_of (exceptions_broad this) key = Some kind"
  shows "throw_for_message E this fb (JStr m) = Inl (Exc kind fb)"
proof -
  from assms(1) have "m \<notin> fst ` set (exceptions_exact this)"
    by (simp add: map_of_eq_None_iff)
  with assms show ?thesis
    by (simp add: throw_for_message_def has_property_def property_key_def throw_new_def)
qed

text \<open>
  No key of the broad table of \<^verbatim>\<open>describe ()\<close> occurs in a name inherited from
  \<^verbatim>\<open>Object.prototype\<close>, so a message with a broad match is never an inherited name.
\<close>

lemma describe_broad_inherited:
  "\<forall>p\<in>set object_prototype_keys. first_broad_key (exceptions_broad describe) p = None"
  by (simp add: object_prototype_keys_def describe_def indexOf_def)

text \<open>
  With a status of 400 or more and a body that parses, \<^verbatim>\<open>handleErrors\<close> classifies the
  \<^verbatim>\<open>message\<close> field, or else the \<^verbatim>\<open>error\<close> field. A body that starts with \<^verbatim>\<open>{\<close> and does not
  parse leaves with the \<^verbatim>\<open>SyntaxError\<close> of \<^verbatim>\<open>JSON.parse\<close>.
\<close>

lemma handleErrors_message:
  assumes "400 \<le> code" and "2 \<le> length body" and "body ! 0 = CHR ''{''"
    and "json_parse E body = Some response"
    and "map_of response ''message'' = Some message
         \<or> map_of response ''message'' = None \<and> map_of response ''error'' = Some message"
  shows "handleErrors E this code body =
           throw_for_message E this (exchange_id this @ '' '' @ json E response) message"
  using assms by (auto simp: handleErrors_def Let_def)

lemma handleErrors_syntax_error:
  assumes "400 \<le> code" and "2 \<le> length body" and "body ! 0 = CHR ''{''"
    and "json_parse E body = None"
  shows "handleErrors E this code body = Inl (Native SyntaxError)"
  using assms by (simp add: handleErrors_def)

text \<open>
  C1. For a status of 400 or more and a body that parses to an object with the message
  string \<open>m\<close>, with the inherited lookup doing what the spec says of it, and with
  tables such as those of \<^verbatim>\<open>describe ()\<close>, where no key of the broad table occurs in a
  name that objects inherit: if \<open>m\<close> is a key of the exact table, the error thrown is of
  the class the exact table gives, whatever the broad table holds; if it is not, and
  \<open>key\<close> is the first key of the broad table, in declaration order, that occurs in
  \<open>m\<close>, the error thrown is of the class the broad table gives for \<open>key\<close>.
\<close>

theorem handleErrors_exact_before_broad:
  assumes status: "400 \<le> code"
    and body: "2 \<le> length body" "body ! 0 = CHR ''{''" "json_parse E body = Some response"
    and message: "map_of response ''message'' = Some (JStr m)
         \<or> map_of response ''message'' = None \<and> map_of response ''error'' = Some (JStr m)"
    and inherited:
      "\<forall>p\<in>set object_prototype_keys. first_broad_key (exceptions_broad this) p = None"
    and helper: "findBroadlyMatchedKey E (exceptions_broad this) (JStr m) =
         Inr (first_broad_key (exceptions_broad this) m)"
  shows "(\<forall>kind. map_of (exceptions_exact this) m = Some kind \<longrightarrow>
            handleErrors E this code body =
              Inl (Exc kind (exchange_id this @ '' '' @ json E response)))
       \<and> (map_of (exceptions_exact this) m = None \<longrightarrow>
            (\<forall>pre key kind post.
               exceptions_broad this = pre @ (key, kind) # post \<and> 0 \<le> indexOf m key
               \<and> (\<forall>k\<in>fst ` set pre. indexOf m k < 0) \<longrightarrow>
               handleErrors E this code body =
                 Inl (Exc kind (exchange_id this @ '' '' @ json E response))))"
proof (intro conjI allI impI)
  fix kind
  assume "map_of (exceptions_exact this) m = Some kind"
  then show "handleErrors E this code body =
      Inl (Exc kind (exchange_id this @ '' '' @ json E response))"
    using handleErrors_message [OF status body message] throw_for_message_exact by simp
next
  fix pre key kind post
  assume none: "map_of (exceptions_exact this) m = None"
    and split: "exceptions_broad this = pre @ (key, kind) # post \<and> 0 \<le> indexOf m key
      \<and> (\<forall>k\<in>fst ` set pre. indexOf m k < 0)"
  then have first: "first_broad_key (exceptions_broad this) m = Some key"
    and kind: "map_of (exceptions_broad this) key = Some kind"
    using first_broad_key_split [of "exceptions_broad this" pre key kind post m] by simp_all
  from first inherited have "m \<notin> set object_prototype_keys"
    by force
  with none helper first kind
  have "throw_for_message E this (exchange_id this @ '' '' @ json E response) (JStr m) =
      Inl (Exc kind (exchange_id this @ '' '' @ json E response))"
    by (intro throw_for_message_broad) simp_all
  then show "handleErrors E this code body =
      Inl (Exc kind (exchange_id this @ '' '' @ json E response))"
    using handleErrors_message [OF status body message] by simp
qed

text \<open>
  The theorem at two samples. The message of the spec's sample matches the second and
  the fourth key of the broad table of \<^verbatim>\<open>describe ()\<close>, and the second decides. With
  \<^verbatim>\<open>Invalid order\<close> as a key of both tables, the exact table decides.
\<close>

theorem handleErrors_exact_before_broad_witness:
  \<open>handleErrors sample_env describe 400
      ''{"message":"Invalid order: not enough exchange balance for BTC"}'' =
    Inl (Exc InsufficientFunds
      ''cpdax {"message":"Invalid order: not enough exchange balance for BTC"}'')
   \<and> map_of (exceptions_broad describe) ''Invalid order'' = Some InvalidOrder
   \<and> handleErrors sample_env (describe\<lparr>exceptions_exact := [(''Invalid order'', OrderNotFound)]\<rparr>)
      400 ''{"error":"Invalid order"}'' =
    Inl (Exc OrderNotFound ''cpdax {"error":"Invalid order"}'')\<close>
proof -
  let ?body = \<open>''{"message":"Invalid order: not enough exchange balance for BTC"}''\<close>
  let ?m = "''Invalid order: not enough exchange balance for BTC''"
  have status: "(400::int) \<le> 400" by simp
  have parse: "json_parse sample_env ?body = Some [(''message'', JStr ?m)]"
    by (simp add: sample_env_def parse_flat_def plain_char_def)
  have helper: "findBroadlyMatchedKey sample_env (exceptions_broad describe) (JStr ?m) =
      Inr (first_broad_key (exceptions_broad describe) ?m)"
    by (simp add: sample_env_def broad_lookup_def)
  have none: "map_of (exceptions_exact describe) ?m = None"
    by (simp add: describe_def)
  have split: "exceptions_broad describe =
      [(''This API key does not have permission'', PermissionDenied)]
      @ (''Invalid order: not enough exchange balance for '', InsufficientFunds)
      # [(''Invalid order: minimum size for '', InvalidOrder),
         (''Invalid order'', InvalidOrder),
         (''The available balance is only'', InsufficientFunds)]
    \<and> 0 \<le> indexOf ?m ''Invalid order: not enough exchange balance for ''
    \<and> (\<forall>k\<in>fst ` set [(''This API key does not have permission'', PermissionDenied)].
          indexOf ?m k < 0)"
    by (simp add: describe_def indexOf_def)
  have len: "2 \<le> length ?body" by simp
  have first: "?body ! 0 = CHR ''{''" by simp
  have msg: "map_of [(''message'', JStr ?m)] ''message'' = Some (JStr ?m)
      \<or> map_of [(''message'', JStr ?m)] ''message'' = None
        \<and> map_of [(''message'', JStr ?m)] ''error'' = Some (JStr ?m)"
    by simp
  note broad = handleErrors_exact_before_broad
    [OF status len first parse msg describe_broad_inherited helper]
  have "handleErrors sample_env describe 400 ?body =
      Inl (Exc InsufficientFunds (exchange_id describe @ '' '' @
        json sample_env [(''message'', JStr ?m)]))"
    by (rule broad [THEN conjunct2, rule_format, OF none split])
  then have one: "handleErrors sample_env describe 400 ?body =
      Inl (Exc InsufficientFunds
        (''cpdax '' @ ?body))"
    by (simp add: describe_def sample_env_def json_flat_def)
  let ?ex = "describe\<lparr>exceptions_exact := [(''Invalid order'', OrderNotFound)]\<rparr>"
  let ?body2 = \<open>''{"error":"Invalid order"}''\<close>
  have parse2: "json_parse sample_env ?body2 = Some [(''error'', JStr ''Invalid order'')]"
    by (simp add: sample_env_def parse_flat_def plain_char_def)
  have len2: "2 \<le> length ?body2" by simp
  have first2: "?body2 ! 0 = CHR ''{''" by simp
  have msg2: "map_of [(''error'', JStr ''Invalid order'')] ''message'' = Some (JStr ''Invalid order'')
      \<or> map_of [(''error'', JStr ''Invalid order'')] ''message'' = None
        \<and> map_of [(''error'', JStr ''Invalid order'')] ''error'' = Some (JStr ''Invalid order'')"
    by simp
  have inherited2:
    "\<forall>p\<in>set object_prototype_keys. first_broad_key (exceptions_broad ?ex) p = None"
    using describe_broad_inherited by simp
  have helper2: "findBroadlyMatchedKey sample_env (exceptions_broad ?ex)
      (JStr ''Invalid order'') = Inr (first_broad_key (exceptions_broad ?ex) ''Invalid order'')"
    by (simp add: sample_env_def broad_lookup_def)
  have exact2: "map_of (exceptions_exact ?ex) ''Invalid order'' = Some OrderNotFound"
    by simp
  note exact = handleErrors_exact_before_broad
    [OF status len2 first2 parse2 msg2 inherited2 helper2]
  have "handleErrors sample_env ?ex 400 ?body2 =
      Inl (Exc OrderNotFound (exchange_id ?ex @ '' '' @
        json sample_env [(''error'', JStr ''Invalid order'')]))"
    by (rule exact [THEN conjunct1, rule_format, OF exact2])
  then have two: "handleErrors sample_env ?ex 400 ?body2 =
      Inl (Exc OrderNotFound (''cpdax '' @ ?body2))"
    by (simp add: describe_def sample_env_def json_flat_def)
  have both: "map_of (exceptions_broad describe) ''Invalid order'' = Some InvalidOrder"
    by (simp add: describe_def)
  from one both two show ?thesis by simp
qed

text \<open>
  C2, as the spec states it, fails: a body that is no JSON object is not classified at
  all. With status 500 the body \<^verbatim>\<open><html>\<close> makes \<^verbatim>\<open>handleErrors\<close> return normally.
\<close>

theorem handleErrors_html_counterexample:
  "(500::int) \<ge> 400 \<and> 2 \<le> length ''<html>'' \<and> json_parse sample_env ''<html>'' = None
   \<and> handleErrors sample_env describe 500 ''<html>'' = Inr ()"
  by (simp add: handleErrors_def sample_env_def parse_flat_def)

text \<open>
  C2, amended. For a status of 400 or more and a body of length at least 2: a body whose
  first character is not \<^verbatim>\<open>{\<close> makes \<^verbatim>\<open>handleErrors\<close> return normally, without an error;
  the generic \<open>ExchangeError\<close> is thrown for a body that parses to an object with neither
  a \<^verbatim>\<open>message\<close> nor an \<^verbatim>\<open>error\<close> field, and it carries the exchange id and the
  serialisation of the parsed object.
\<close>

theorem handleErrors_body_not_object:
  assumes "400 \<le> code" and "2 \<le> length body"
  shows "(body ! 0 \<noteq> CHR ''{'' \<longrightarrow> handleErrors E this code body = Inr ())
       \<and> (body ! 0 = CHR ''{'' \<longrightarrow>
            (\<forall>response. json_parse E body = Some response
               \<and> map_of response ''message'' = None \<and> map_of response ''error'' = None \<longrightarrow>
               handleErrors E this code body =
                 Inl (Exc ExchangeError (exchange_id this @ '' '' @ json E response))))"
  using assms by (auto simp: handleErrors_def)

theorem handleErrors_body_not_object_witness:
  "(500::int) \<ge> 400 \<and> 2 \<le> length ''{}'' \<and> ''{}'' ! 0 = CHR ''{''
   \<and> json_parse sample_env ''{}'' = Some []
   \<and> handleErrors sample_env describe 500 ''{}'' = Inl (Exc ExchangeError ''cpdax {}'')"
proof -
  have status: "(400::int) \<le> 500" by simp
  have len: "2 \<le> length ''{}''" by simp
  have parse: "json_parse sample_env ''{}'' = Some []"
    by (simp add: sample_env_def parse_flat_def)
  from handleErrors_body_not_object [OF status len, of sample_env describe] parse
  have "handleErrors sample_env describe 500 ''{}'' =
      Inl (Exc ExchangeError (exchange_id describe @ '' '' @ json sample_env []))"
    by simp
  with parse show ?thesis
    by (simp add: describe_def sample_env_def json_flat_def)
qed

text \<open>
  C8. For every response body of length at least 2, classification with a status code
  below 400 returns normally (no error is thrown), whatever the body is.
\<close>

theorem handleErrors_below_400:
  assumes "code < 400" and "2 \<le> length body"
  shows "handleErrors E this code body = Inr ()"
  using assms by (simp add: handleErrors_def)

theorem handleErrors_below_400_witness:
  \<open>(200::int) < 400 \<and> 2 \<le> length ''{"message":"Nonce is too small."}''
   \<and> handleErrors sample_env describe 200 ''{"message":"Nonce is too small."}'' = Inr ()\<close>
  using handleErrors_below_400 [of 200 \<open>''{"message":"Nonce is too small."}''\<close> sample_env describe]
  by simp

section \<open>Properties of sign\<close>

lemmas sample_request_defs =
  sample_request_env_def implode_sample_def omit_sample_def urlencode_sample_def
  stringify_sample_def hmac_sample_def json_flat_def digit_char_def indexOf_def toUpperCase_def upper_char_def
  describe_def

text \<open>
  C3, as the spec states it, fails on the names of the headers: they are
  \<^verbatim>\<open>CP-ACCESS-KEY\<close>, \<^verbatim>\<open>CP-ACCESS-TIMESTAMP\<close> and \<^verbatim>\<open>CP-ACCESS-DIGEST\<close>, as the signed request
  for \<^verbatim>\<open>balance\<close> shows.
\<close>

theorem sign_header_names_counterexample:
  "sign sample_request_env describe ''balance'' Private ''GET'' [] None BUndefined =
     Inr \<lparr> r_url = ''https://www.cpdax.com/v1/balance'', r_method = ''GET'',
           r_body = BUndefined,
           r_headers = Some
             [(''CP-ACCESS-KEY'',
               HStr ''752d07a5cef56223ed1b0c558fbcfb444f012f4338d132eb46c8ca6c7981928a''),
              (''CP-ACCESS-TIMESTAMP'', HNum 1541030400),
              (''CP-ACCESS-DIGEST'',
               HStr ''hmac-sha256(MmIyNDRiYTctMDMzMy00ODkyLThlNTgtZTRhNmRlN2ZjZDZm,752d07a5cef56223ed1b0c558fbcfb444f012f4338d132eb46c8ca6c7981928a1541030400GET/v1/balance)'')] \<rparr>"
  by (simp add: sign_def Let_def plus_timestamp_def header_of_def urls_api_def
      sample_request_defs string_of_nat.simps)

text \<open>
  C3, amended. For every private request of an instance with an API key, the payload is
  the key, the decimal nonce, the method in upper case and the request path
  \<^verbatim>\<open>/version/path\<close> (with \<^verbatim>\<open>?query\<close> when the path contains \<^verbatim>\<open>/hist\<close> and parameters remain),
  followed by \<^verbatim>\<open>JSON.stringify (params)\<close> exactly when the method is \<^verbatim>\<open>POST\<close>; it is signed
  by \<^verbatim>\<open>hmac\<close> with the secret and \<^verbatim>\<open>sha256\<close>; and the headers are exactly
  \<^verbatim>\<open>CP-ACCESS-KEY\<close> (the key), \<^verbatim>\<open>CP-ACCESS-TIMESTAMP\<close> (the nonce) and \<^verbatim>\<open>CP-ACCESS-DIGEST\<close>
  (the signature).
\<close>

theorem sign_private_payload_headers:
  assumes "apiKey this = Some key"
  shows "sign B this path Private method params headers body =
     (let query = omit B params (extractParams B path);
          request = ''/'' @ version this @ ''/'' @ implodeParams B path params @
            (if 0 \<le> indexOf path ''/hist'' \<and> query \<noteq> [] then ''?'' @ urlencode B query else []);
          payload = key @ string_of_nat (nonce B) @ toUpperCase method @ request @
            (if method = ''POST'' then stringify B params else [])
      in case hmac B payload (secret this) ''sha256'' of
           Inl t \<Rightarrow> Inl t
         | Inr signature \<Rightarrow>
             Inr \<lparr> r_url = urls_api_private this @ request, r_method = method,
                   r_body = (if method = ''POST'' then BParams params else body),
                   r_headers = Some
                     [(''CP-ACCESS-KEY'', HStr key),
                      (''CP-ACCESS-TIMESTAMP'', HNum (nonce B)),
                      (''CP-ACCESS-DIGEST'', HStr signature)] \<rparr>)"
  using assms
  by (simp add: sign_def Let_def plus_timestamp_def header_of_def urls_api_def
      cong: sum.case_cong)

theorem sign_private_payload_headers_witness:
  "apiKey (describe\<lparr>apiKey := Some ''key'', secret := Some ''secret''\<rparr>) = Some ''key'' \<and>
   sign sample_request_env (describe\<lparr>apiKey := Some ''key'', secret := Some ''secret''\<rparr>)
       ''orders/{symbol}'' Private ''post''
       [(''symbol'', ''BTC-KRW''), (''size'', ''5'')] None BUndefined =
     Inr \<lparr> r_url = ''https://www.cpdax.com/v1/orders/BTC-KRW'', r_method = ''post'',
           r_body = BUndefined,
           r_headers = Some
             [(''CP-ACCESS-KEY'', HStr ''key''),
              (''CP-ACCESS-TIMESTAMP'', HNum 1541030400),
              (''CP-ACCESS-DIGEST'',
               HStr ''hmac-sha256(secret,key1541030400POST/v1/orders/BTC-KRW)'')] \<rparr>"
proof -
  have key: "apiKey (describe\<lparr>apiKey := Some ''key'', secret := Some ''secret''\<rparr>) = Some ''key''"
    by simp
  show ?thesis
    using sign_private_payload_headers [OF key, of sample_request_env "''orders/{symbol}''" "''post''"
        "[(''symbol'', ''BTC-KRW''), (''size'', ''5'')]" None BUndefined]
    by (simp add: sample_request_defs string_of_nat.simps)
qed

text \<open>
  C4, as the spec states it, fails: \<^verbatim>\<open>sign\<close> has no check of the credentials. Without
  an API key it returns a signed request, whose payload starts with \<^verbatim>\<open>NaN\<close>.
\<close>

theorem sign_absent_apiKey_counterexample:
  "sign sample_request_env (describe\<lparr>apiKey := None\<rparr>) ''balance'' Private ''GET'' []
       None BUndefined =
     Inr \<lparr> r_url = ''https://www.cpdax.com/v1/balance'', r_method = ''GET'',
           r_body = BUndefined,
           r_headers = Some
             [(''CP-ACCESS-KEY'', HUndefined),
              (''CP-ACCESS-TIMESTAMP'', HNum 1541030400),
              (''CP-ACCESS-DIGEST'',
               HStr ''hmac-sha256(MmIyNDRiYTctMDMzMy00ODkyLThlNTgtZTRhNmRlN2ZjZDZm,NaNGET/v1/balance)'')] \<rparr>"
  by (simp add: sign_def Let_def plus_timestamp_def header_of_def urls_api_def
      sample_request_defs)

text \<open>
  C4, amended. For every private request of an instance without an API key or without a
  secret, \<^verbatim>\<open>sign\<close> throws no \<open>AuthenticationError\<close> of its own: it hands the payload
  (which starts with \<^verbatim>\<open>NaN\<close> when the key is absent) and the secret as it is to
  \<^verbatim>\<open>hmac\<close>, throws what \<^verbatim>\<open>hmac\<close> throws, and otherwise returns the request, with
  \<^verbatim>\<open>undefined\<close> as \<^verbatim>\<open>CP-ACCESS-KEY\<close> when the key is absent.
\<close>

theorem sign_absent_credentials:
  assumes "apiKey this = None \<or> secret this = None"
  shows "sign B this path Private method params headers body =
     (let query = omit B params (extractParams B path);
          request = ''/'' @ version this @ ''/'' @ implodeParams B path params @
            (if 0 \<le> indexOf path ''/hist'' \<and> query \<noteq> [] then ''?'' @ urlencode B query else []);
          payload =
            (case apiKey this of None \<Rightarrow> ''NaN'' | Some key \<Rightarrow> key @ string_of_nat (nonce B)) @
            toUpperCase method @ request @
            (if method = ''POST'' then stringify B params else [])
      in case hmac B payload (secret this) ''sha256'' of
           Inl t \<Rightarrow> Inl t
         | Inr signature \<Rightarrow>
             Inr \<lparr> r_url = urls_api_private this @ request, r_method = method,
                   r_body = (if method = ''POST'' then BParams params else body),
                   r_headers = Some
                     [(''CP-ACCESS-KEY'',
                       (case apiKey this of None \<Rightarrow> HUndefined | Some key \<Rightarrow> HStr key)),
                      (''CP-ACCESS-TIMESTAMP'', HNum (nonce B)),
                      (''CP-ACCESS-DIGEST'', HStr signature)] \<rparr>)"
  by (simp add: sign_def Let_def plus_timestamp_def header_of_def urls_api_def
      cong: sum.case_cong)

theorem sign_absent_credentials_witness:
  \<open>(apiKey (describe\<lparr>apiKey := None, secret := Some ''secret''\<rparr>) = None
      \<or> secret (describe\<lparr>apiKey := None, secret := Some ''secret''\<rparr>) = None) \<and>
   sign sample_request_env (describe\<lparr>apiKey := None, secret := Some ''secret''\<rparr>)
       ''orders'' Private ''POST'' [(''size'', ''5'')] None BUndefined =
     Inr \<lparr> r_url = ''https://www.cpdax.com/v1/orders'', r_method = ''POST'',
           r_body = BParams [(''size'', ''5'')],
           r_headers = Some
             [(''CP-ACCESS-KEY'', HUndefined),
              (''CP-ACCESS-TIMESTAMP'', HNum 1541030400),
              (''CP-ACCESS-DIGEST'',
               HStr ''hmac-sha256(secret,NaNPOST/v1/orders{"size":"5"})'')] \<rparr>\<close>
proof -
  have absent: "apiKey (describe\<lparr>apiKey := None, secret := Some ''secret''\<rparr>) = None
      \<or> secret (describe\<lparr>apiKey := None, secret := Some ''secret''\<rparr>) = None"
    by simp
  show ?thesis
    using sign_absent_credentials [OF absent, of sample_request_env "''orders''" "''POST''"
        "[(''size'', ''5'')]" None BUndefined]
    by (simp add: sample_request_defs)
qed

text \<open>
  C7, as the spec states it, fails: a private request whose path contains \<^verbatim>\<open>/hist\<close> has
  the remaining parameters in the query of its URL.
\<close>

theorem sign_private_query_counterexample:
  "sign sample_request_env (describe\<lparr>apiKey := Some ''key'', secret := Some ''secret''\<rparr>)
       ''orders/{symbol}/hist'' Private ''GET''
       [(''symbol'', ''BTC-KRW''), (''limit'', ''5'')] None BUndefined =
     Inr \<lparr> r_url = ''https://www.cpdax.com/v1/orders/BTC-KRW/hist?limit=5'', r_method = ''GET'',
           r_body = BUndefined,
           r_headers = Some
             [(''CP-ACCESS-KEY'', HStr ''key''),
              (''CP-ACCESS-TIMESTAMP'', HNum 1541030400),
              (''CP-ACCESS-DIGEST'',
               HStr ''hmac-sha256(secret,key1541030400GET/v1/orders/BTC-KRW/hist?limit=5)'')] \<rparr>"
  by (simp add: sign_def Let_def plus_timestamp_def header_of_def urls_api_def
      sample_request_defs string_of_nat.simps)

text \<open>
  C7, amended. A public request has the parameters that are no placeholders of the path
  in the query of its URL when any remain, whatever the method. A private request whose
  path does not contain \<^verbatim>\<open>/hist\<close> has no query in its URL, and its body is the whole
  object \<^verbatim>\<open>params\<close> when the method is \<^verbatim>\<open>POST\<close> and the body that was passed otherwise.
\<close>

theorem sign_params_placement:
  "sign B this path Public method params headers body =
     Inr \<lparr> r_url = urls_api_public this @ ''/'' @ version this @ ''/'' @
             implodeParams B path params @
             (if omit B params (extractParams B path) \<noteq> []
              then ''?'' @ urlencode B (omit B params (extractParams B path)) else []),
           r_method = method, r_body = body, r_headers = headers \<rparr>
   \<and> (indexOf path ''/hist'' < 0 \<longrightarrow>
        (\<forall>r. sign B this path Private method params headers body = Inr r \<longrightarrow>
           r_url r = urls_api_private this @ ''/'' @ version this @ ''/'' @
             implodeParams B path params
           \<and> r_body r = (if method = ''POST'' then BParams params else body)))"
  by (auto simp: sign_def Let_def urls_api_def split: sum.splits)

theorem sign_params_placement_witness:
  \<open>sign sample_request_env describe ''trades/{symbol}'' Public ''POST''
       [(''symbol'', ''BTC-KRW''), (''limit'', ''5'')] None BUndefined =
     Inr \<lparr> r_url = ''https://www.cpdax.com/v1/trades/BTC-KRW?limit=5'', r_method = ''POST'',
           r_body = BUndefined, r_headers = None \<rparr>
   \<and> indexOf ''orders/{symbol}'' ''/hist'' < 0
   \<and> sign sample_request_env (describe\<lparr>apiKey := Some ''key'', secret := Some ''secret''\<rparr>)
       ''orders/{symbol}'' Private ''POST''
       [(''symbol'', ''BTC-KRW''), (''size'', ''5'')] None BUndefined =
     Inr \<lparr> r_url = ''https://www.cpdax.com/v1/orders/BTC-KRW'', r_method = ''POST'',
           r_body = BParams [(''symbol'', ''BTC-KRW''), (''size'', ''5'')],
           r_headers = Some
             [(''CP-ACCESS-KEY'', HStr ''key''),
              (''CP-ACCESS-TIMESTAMP'', HNum 1541030400),
              (''CP-ACCESS-DIGEST'', HStr
                ''hmac-sha256(secret,key1541030400POST/v1/orders/BTC-KRW{"symbol":"BTC-KRW","size":"5"})'')] \<rparr>\<close>
proof -
  let ?ex = "describe\<lparr>apiKey := Some ''key'', secret := Some ''secret''\<rparr>"
  let ?params = "[(''symbol'', ''BTC-KRW''), (''size'', ''5'')]"
  let ?digest =
    \<open>''hmac-sha256(secret,key1541030400POST/v1/orders/BTC-KRW{"symbol":"BTC-KRW","size":"5"})''\<close>
  have no_hist: "indexOf ''orders/{symbol}'' ''/hist'' < 0"
    by (simp add: indexOf_def)
  from sign_params_placement [of sample_request_env describe "''trades/{symbol}''" "''POST''"
      "[(''symbol'', ''BTC-KRW''), (''limit'', ''5'')]" None BUndefined]
  have pub: "sign sample_request_env describe ''trades/{symbol}'' Public ''POST''
       [(''symbol'', ''BTC-KRW''), (''limit'', ''5'')] None BUndefined =
     Inr \<lparr> r_url = ''https://www.cpdax.com/v1/trades/BTC-KRW?limit=5'', r_method = ''POST'',
           r_body = BUndefined, r_headers = None \<rparr>"
    by (simp add: sample_request_defs)
  obtain r where r: "sign sample_request_env ?ex ''orders/{symbol}'' Private ''POST'' ?params
      None BUndefined = Inr r"
    and rest: "r_method r = ''POST''" "r_headers r = Some
             [(''CP-ACCESS-KEY'', HStr ''key''),
              (''CP-ACCESS-TIMESTAMP'', HNum 1541030400),
              (''CP-ACCESS-DIGEST'', HStr ?digest)]"
    by (simp add: sign_def Let_def plus_timestamp_def header_of_def urls_api_def
        sample_request_defs string_of_nat.simps)
  from sign_params_placement [of sample_request_env ?ex "''orders/{symbol}''" "''POST''"
      ?params None BUndefined] no_hist r
  have "r_url r = ''https://www.cpdax.com/v1/orders/BTC-KRW'' \<and> r_body r = BParams ?params"
    by (simp add: sample_request_defs)
  with rest have "r = \<lparr> r_url = ''https://www.cpdax.com/v1/orders/BTC-KRW'', r_method = ''POST'',
           r_body = BParams ?params,
           r_headers = Some
             [(''CP-ACCESS-KEY'', HStr ''key''),
              (''CP-ACCESS-TIMESTAMP'', HNum 1541030400),
              (''CP-ACCESS-DIGEST'', HStr ?digest)] \<rparr>"
    by (cases r) simp
  with r pub no_hist show ?thesis by simp
qed

section \<open>Properties of fetchMarkets\<close>

text \<open>Every entry of the result is the entry of one of the raw records.\<close>

lemma fetchMarkets_loop_entry:
  assumes "fetchMarkets_loop M markets acc = Inr result" and "entry \<in> set result"
  shows "entry \<in> set acc \<or> (\<exists>raw\<in>set markets. market_entry M raw = Inr entry)"
  using assms
proof (induction markets arbitrary: acc)
  case Nil
  then show ?case by simp
next
  case (Cons raw markets)
  from Cons.prems(1) obtain e where e: "market_entry M raw = Inr e"
    and rest: "fetchMarkets_loop M markets (acc @ [e]) = Inr result"
    by (auto split: sum.splits)
  from Cons.IH [OF rest Cons.prems(2)] e show ?case by auto
qed

lemma fetchMarkets_entry:
  assumes "fetchMarkets M markets = Inr result" and "entry \<in> set result"
  shows "\<exists>raw\<in>set markets. market_entry M raw = Inr entry"
  using fetchMarkets_loop_entry [of M markets "[]" result entry] assms
  by (simp add: fetchMarkets_def)

lemma market_entry_fields:
  assumes "market_entry M raw = Inr entry"
  shows "active entry"
    and "range_min (price (limits entry)) = Some (Fin 2)"
    and "range_min (amount (limits entry)) = safeFloat M raw ''min_size''"
    and "range_min (cost (limits entry)) =
      Some (js_times (round_double M) (safeFloat M raw ''min_size'') (Some (Fin 2)))"
  using assms
  by (auto simp: market_entry_def split: option.splits json.splits sum.splits)

lemmas sample_market_defs =
  fetchMarkets_def market_entry_def sample_market_env_def currency_code_sample_def
  safeFloat_sample_def at_index_def text_of_def toUpperCase_def upper_char_def
  js_times_def to_number_def

lemma fetchMarkets_sample:
  "fetchMarkets sample_market_env [sample_product] = Inr [sample_entry]"
  by (simp add: sample_market_defs sample_product_def sample_entry_def)

text \<open>
  C10. Every market that \<^verbatim>\<open>fetchMarkets\<close> returns has \<^verbatim>\<open>active\<close> set to \<^verbatim>\<open>true\<close>, whatever
  the raw record holds.
\<close>

theorem fetchMarkets_active:
  assumes "fetchMarkets M markets = Inr result" and "entry \<in> set result"
  shows "active entry = True"
proof -
  from fetchMarkets_entry [OF assms] obtain raw where "market_entry M raw = Inr entry"
    by blast
  then show ?thesis by (simp add: market_entry_fields(1))
qed

theorem fetchMarkets_active_witness:
  "fetchMarkets sample_market_env [sample_product] = Inr [sample_entry]
   \<and> sample_entry \<in> set [sample_entry] \<and> active sample_entry = True"
proof -
  have member: "sample_entry \<in> set [sample_entry]" by simp
  from fetchMarkets_active [OF fetchMarkets_sample member] fetchMarkets_sample member
  show ?thesis by simp
qed

text \<open>
  C6, as the spec states it, fails in its second half: when the raw record has no
  \<^verbatim>\<open>min_size\<close>, so that \<^verbatim>\<open>limits.amount.min\<close> is \<^verbatim>\<open>undefined\<close>, \<^verbatim>\<open>limits.cost.min\<close> is the
  number \<open>NaN\<close>, not \<^verbatim>\<open>undefined\<close>.
\<close>

theorem fetchMarkets_cost_min_counterexample:
  "fetchMarkets sample_market_env [[(''product_id'', JStr ''BTC-KRW'')]] =
     Inr [\<lparr> market_id = ''BTC-KRW'', symbol = ''BTC/KRW'', base = Some ''BTC'',
            quote = Some ''KRW'', baseId = Some ''BTC'', quoteId = Some ''KRW'', active = True,
            precision = \<lparr> precision_price = None, precision_amount = None \<rparr>,
            limits =
              \<lparr> amount = \<lparr> range_min = None, range_max = None \<rparr>,
                price = \<lparr> range_min = Some (Fin 2), range_max = Some (Fin 100) \<rparr>,
                cost = \<lparr> range_min = Some NaN, range_max = None \<rparr> \<rparr>,
            info = [(''product_id'', JStr ''BTC-KRW'')] \<rparr>]"
  by (simp add: sample_market_defs)

text \<open>
  C6, amended. For every market that \<^verbatim>\<open>fetchMarkets\<close> returns, \<^verbatim>\<open>limits.price.min\<close> is the
  constant 2 and \<^verbatim>\<open>limits.cost.min\<close> is the product
  \<^verbatim>\<open>limits.amount.min * limits.price.min\<close> of JavaScript: the rounded product when
  \<^verbatim>\<open>limits.amount.min\<close> is a finite number, and the number \<open>NaN\<close> when it is
  \<^verbatim>\<open>undefined\<close>; it is never taken for zero.
\<close>

theorem fetchMarkets_cost_min:
  assumes "fetchMarkets M markets = Inr result" and "entry \<in> set result"
  shows "range_min (price (limits entry)) = Some (Fin 2)
     \<and> range_min (cost (limits entry)) =
         Some (js_times (round_double M) (range_min (amount (limits entry)))
           (range_min (price (limits entry))))
     \<and> (range_min (amount (limits entry)) = None \<longrightarrow>
          range_min (cost (limits entry)) = Some NaN)
     \<and> (\<forall>x. range_min (amount (limits entry)) = Some (Fin x) \<longrightarrow>
          range_min (cost (limits entry)) = Some (round_double M (x * 2)))"
proof -
  from fetchMarkets_entry [OF assms] obtain raw where raw: "market_entry M raw = Inr entry"
    by blast
  note f = market_entry_fields [OF raw]
  show ?thesis
    by (simp add: f js_times_def to_number_def)
qed

theorem fetchMarkets_cost_min_witness:
  "fetchMarkets sample_market_env [sample_product] = Inr [sample_entry]
   \<and> sample_entry \<in> set [sample_entry]
   \<and> range_min (amount (limits sample_entry)) = Some (Fin (1 / 2))
   \<and> range_min (cost (limits sample_entry)) = Some (Fin 1)"
proof -
  have member: "sample_entry \<in> set [sample_entry]" by simp
  have amount_min: "range_min (amount (limits sample_entry)) = Some (Fin (1 / 2))"
    by (simp add: sample_entry_def)
  note inst = fetchMarkets_cost_min [OF fetchMarkets_sample member]
  from inst amount_min
  have "range_min (cost (limits sample_entry)) =
      Some (round_double sample_market_env (1 / 2 * 2))"
    by blast
  then have "range_min (cost (limits sample_entry)) = Some (Fin 1)"
    by (simp add: sample_market_env_def)
  with fetchMarkets_sample member amount_min show ?thesis by simp
qed

text \<open>
  C5, as the spec states it, fails: the product id is not checked. An id without
  \<^verbatim>\<open>-\<close> gives a market whose quote is \<^verbatim>\<open>undefined\<close>, and of an id with three segments the
  third is dropped.
\<close>

theorem fetchMarkets_invalid_id_counterexample:
  "fetchMarkets sample_market_env [[(''product_id'', JStr ''INVALID'')]] =
     Inr [\<lparr> market_id = ''INVALID'', symbol = ''INVALID/undefined'', base = Some ''INVALID'',
            quote = None, baseId = Some ''INVALID'', quoteId = None, active = True,
            precision = \<lparr> precision_price = None, precision_amount = None \<rparr>,
            limits =
              \<lparr> amount = \<lparr> range_min = None, range_max = None \<rparr>,
                price = \<lparr> range_min = Some (Fin 2), range_max = Some (Fin 100) \<rparr>,
                cost = \<lparr> range_min = Some NaN, range_max = None \<rparr> \<rparr>,
            info = [(''product_id'', JStr ''INVALID'')] \<rparr>]
   \<and> fetchMarkets sample_market_env [[(''product_id'', JStr ''BTC-KRW-USD'')]] =
     Inr [\<lparr> market_id = ''BTC-KRW-USD'', symbol = ''BTC/KRW'', base = Some ''BTC'',
            quote = Some ''KRW'', baseId = Some ''BTC'', quoteId = Some ''KRW'', active = True,
            precision = \<lparr> precision_price = None, precision_amount = None \<rparr>,
            limits =
              \<lparr> amount = \<lparr> range_min = None, range_max = None \<rparr>,
                price = \<lparr> range_min = Some (Fin 2), range_max = Some (Fin 100) \<rparr>,
                cost = \<lparr> range_min = Some NaN, range_max = None \<rparr> \<rparr>,
            info = [(''product_id'', JStr ''BTC-KRW-USD'')] \<rparr>]"
  by (simp add: sample_market_defs)

text \<open>
  C5, amended. For every raw record whose product id is a string, the loop checks
  neither the number of the segments nor that they are not empty, and throws no
  \<open>ExchangeError\<close> of its own: \<^verbatim>\<open>baseId\<close> is the text before the first \<^verbatim>\<open>-\<close>, \<^verbatim>\<open>quoteId\<close>
  is the text between the first and the second \<^verbatim>\<open>-\<close>, or \<^verbatim>\<open>undefined\<close> when the id has no
  \<^verbatim>\<open>-\<close>, and when \<^verbatim>\<open>commonCurrencyCode\<close> returns for both, a market with the symbol
  \<^verbatim>\<open>base + '/' + quote\<close> is produced.
\<close>

theorem fetchMarkets_no_id_check:
  assumes "map_of raw ''product_id'' = Some (JStr product_id)"
    and "commonCurrencyCode M (Some (takeWhile (\<lambda>c. c \<noteq> CHR ''-'') product_id)) = Inr base_code"
    and "commonCurrencyCode M
          (if CHR ''-'' \<in> set product_id
           then Some (takeWhile (\<lambda>c. c \<noteq> CHR ''-'')
                  (tl (dropWhile (\<lambda>c. c \<noteq> CHR ''-'') product_id)))
           else None) = Inr quote_code"
  shows "\<exists>entry. fetchMarkets M [raw] = Inr [entry]
     \<and> market_id entry = product_id
     \<and> baseId entry = Some (takeWhile (\<lambda>c. c \<noteq> CHR ''-'') product_id)
     \<and> quoteId entry =
         (if CHR ''-'' \<in> set product_id
          then Some (takeWhile (\<lambda>c. c \<noteq> CHR ''-'')
                 (tl (dropWhile (\<lambda>c. c \<noteq> CHR ''-'') product_id)))
          else None)
     \<and> base entry = base_code \<and> quote entry = quote_code
     \<and> symbol entry = text_of base_code @ ''/'' @ text_of quote_code"
  using assms
  by (simp add: fetchMarkets_def market_entry_def split_first split_second)

theorem fetchMarkets_no_id_check_witness:
  "map_of [(''product_id'', JStr ''INVALID'')] ''product_id'' = Some (JStr ''INVALID'')
   \<and> (\<exists>entry. fetchMarkets sample_market_env [[(''product_id'', JStr ''INVALID'')]] = Inr [entry]
        \<and> market_id entry = ''INVALID'' \<and> baseId entry = Some ''INVALID''
        \<and> quoteId entry = None \<and> symbol entry = ''INVALID/undefined'')"
proof -
  have pid: "map_of [(''product_id'', JStr ''INVALID'')] ''product_id'' = Some (JStr ''INVALID'')"
    by simp
  have base_code: "commonCurrencyCode sample_market_env
      (Some (takeWhile (\<lambda>c. c \<noteq> CHR ''-'') ''INVALID'')) = Inr (Some ''INVALID'')"
    by (simp add: sample_market_env_def currency_code_sample_def toUpperCase_def upper_char_def)
  have quote_code: "commonCurrencyCode sample_market_env
      (if CHR ''-'' \<in> set ''INVALID''
       then Some (takeWhile (\<lambda>c. c \<noteq> CHR ''-'') (tl (dropWhile (\<lambda>c. c \<noteq> CHR ''-'') ''INVALID'')))
       else None) = Inr None"
    by (simp add: sample_market_env_def currency_code_sample_def)
  from fetchMarkets_no_id_check [OF pid base_code quote_code]
  have "\<exists>entry. fetchMarkets sample_market_env [[(''product_id'', JStr ''INVALID'')]] = Inr [entry]
        \<and> market_id entry = ''INVALID'' \<and> baseId entry = Some ''INVALID''
        \<and> quoteId entry = None \<and> symbol entry = ''INVALID/undefined''"
    by (auto simp: text_of_def)
  with pid show ?thesis by blast
qed

section \<open>The credentials of describe\<close>

text \<open>The literal holds what the record \<open>describe\<close> holds.\<close>

lemma describe_literal_record:
  "map_of describe_literal ''id'' = Some (CString (exchange_id describe))"
  "map_of describe_literal ''version'' = Some (CString (version describe))"
  "map_of describe_literal ''apiKey'' = map_option CString (apiKey describe)"
  "map_of describe_literal ''secret'' = map_option CString (secret describe)"
  by (simp_all add: describe_literal_def describe_def)

text \<open>The sample merge is an overlay.\<close>

lemma map_of_assign: "map_of (assign k v obj) k' = (if k' = k then Some v else map_of obj k')"
  by (induction obj) auto

lemma extend_entries_absent:
  "map_of b k = None \<Longrightarrow> map_of (extend_entries out b) k = map_of out k"
  by (induction b arbitrary: out) (auto simp: map_of_assign split: if_splits)

lemma extend_entries_string:
  assumes "distinct (map fst b)" and "map_of b k = Some (CString s)"
  shows "map_of (extend_entries out b) k = Some (CString s)"
  using assms
proof (induction b arbitrary: out)
  case Nil
  then show ?case by simp
next
  case (Cons e b)
  obtain k' v where e: "e = (k', v)" by (cases e)
  show ?case
  proof (cases "k' = k")
    case True
    with Cons.prems e have v: "v = CString s" and "k \<notin> fst ` set b" by auto
    then have "map_of b k = None" by (simp add: map_of_eq_None_iff)
    with True e v show ?thesis by (simp add: extend_entries_absent map_of_assign)
  next
    case False
    with Cons.prems e have "distinct (map fst b)" and "map_of b k = Some (CString s)" by auto
    from Cons.IH [OF this] e show ?thesis by simp
  qed
qed

lemma deep_extend_overlay: "overlay deep_extend"
  unfolding overlay_def
proof (intro conjI allI impI)
  fix a s
  show "deep_extend a (CString s) = CString s" by simp
next
  fix a b :: "(string \<times> cfg) list"
  assume "distinct (map fst b)"
  then show "\<exists>c. deep_extend (CDict a) (CDict b) = CDict c
      \<and> (\<forall>k s. map_of b k = Some (CString s) \<longrightarrow> map_of c k = Some (CString s))
      \<and> (\<forall>k. map_of b k = None \<longrightarrow> map_of c k = map_of a k)"
    by (simp add: extend_entries_string extend_entries_absent)
qed

lemma map_of_map_entries:
  "map_of (map (\<lambda>(p, v). (p, f p v)) obj) k = map_option (f k) (map_of obj k)"
  by (induction obj) auto

text \<open>
  C9. Whatever the description of the base class holds, \<^verbatim>\<open>describe ()\<close> returns an object
  whose \<^verbatim>\<open>apiKey\<close> and \<^verbatim>\<open>secret\<close> are the two fixed, non-empty string literals of lines 105
  and 106; and every instance constructed from a configuration that has neither an
  \<^verbatim>\<open>apiKey\<close> nor a \<^verbatim>\<open>secret\<close> holds these same two strings, whatever else the
  configuration holds and whatever the defaults of the instance are. This is so for
  every \<^verbatim>\<open>deepExtend\<close> that is an overlay.
\<close>

theorem construct_credentials:
  assumes "overlay deepExtend"
    and "distinct (map fst userConfig)"
    and "map_of userConfig ''apiKey'' = None" and "map_of userConfig ''secret'' = None"
  shows "(\<exists>d. describe_object deepExtend super_describe = CDict d
           \<and> map_of d ''apiKey'' =
               Some (CString ''752d07a5cef56223ed1b0c558fbcfb444f012f4338d132eb46c8ca6c7981928a'')
           \<and> map_of d ''secret'' =
               Some (CString ''MmIyNDRiYTctMDMzMy00ODkyLThlNTgtZTRhNmRlN2ZjZDZm''))
     \<and> map_of (construct deepExtend super_describe defaults userConfig) ''apiKey'' =
         Some (CString ''752d07a5cef56223ed1b0c558fbcfb444f012f4338d132eb46c8ca6c7981928a'')
     \<and> map_of (construct deepExtend super_describe defaults userConfig) ''secret'' =
         Some (CString ''MmIyNDRiYTctMDMzMy00ODkyLThlNTgtZTRhNmRlN2ZjZDZm'')
     \<and> ''752d07a5cef56223ed1b0c558fbcfb444f012f4338d132eb46c8ca6c7981928a'' \<noteq> []
     \<and> ''MmIyNDRiYTctMDMzMy00ODkyLThlNTgtZTRhNmRlN2ZjZDZm'' \<noteq> []"
proof -
  let ?K = "''752d07a5cef56223ed1b0c558fbcfb444f012f4338d132eb46c8ca6c7981928a''"
  let ?S = "''MmIyNDRiYTctMDMzMy00ODkyLThlNTgtZTRhNmRlN2ZjZDZm''"
  from assms(1) have leaf: "\<And>a s. deepExtend a (CString s) = CString s"
    and dict: "\<And>a b. distinct (map fst b) \<Longrightarrow> \<exists>c. deepExtend (CDict a) (CDict b) = CDict c
            \<and> (\<forall>k s. map_of b k = Some (CString s) \<longrightarrow> map_of c k = Some (CString s))
            \<and> (\<forall>k. map_of b k = None \<longrightarrow> map_of c k = map_of a k)"
    by (simp_all add: overlay_def)
  have lit: "map_of describe_literal ''apiKey'' = Some (CString ?K)"
    "map_of describe_literal ''secret'' = Some (CString ?S)"
    by (simp_all add: describe_literal_def)
  have "distinct (map fst describe_literal)"
    by (simp add: describe_literal_def)
  from dict [OF this, of super_describe] lit
  obtain d where d: "describe_object deepExtend super_describe = CDict d"
    and dk: "map_of d ''apiKey'' = Some (CString ?K)"
    and ds: "map_of d ''secret'' = Some (CString ?S)"
    unfolding describe_object_def by blast
  from dict [OF assms(2), of d] assms(3,4) dk ds
  obtain config where c: "deepExtend (CDict d) (CDict userConfig) = CDict config"
    and ck: "map_of config ''apiKey'' = Some (CString ?K)"
    and cs: "map_of config ''secret'' = Some (CString ?S)"
    by auto
  from c d have "construct deepExtend super_describe defaults userConfig =
      map (\<lambda>(p, v). (p, deepExtend (property defaults p) v)) config"
    by (simp add: construct_def)
  with ck cs leaf d dk ds show ?thesis
    by (simp add: map_of_map_entries)
qed

text \<open>
  The theorem at a sample: a base class whose description has no credentials and another
  rate limit, an instance that starts without credentials, and a user who asks for
  verbose output and a rate limit of 3000.
\<close>

theorem construct_credentials_witness:
  "distinct (map fst [(''verbose'', CBool True), (''rateLimit'', CNumber (Fin 3000))])
   \<and> map_of [(''verbose'', CBool True), (''rateLimit'', CNumber (Fin 3000))] ''apiKey'' = None
   \<and> map_of [(''verbose'', CBool True), (''rateLimit'', CNumber (Fin 3000))] ''secret'' = None
   \<and> map_of (construct deep_extend
         [(''apiKey'', CUndefined), (''secret'', CUndefined), (''rateLimit'', CNumber (Fin 2000))]
         [(''apiKey'', CUndefined), (''secret'', CUndefined)]
         [(''verbose'', CBool True), (''rateLimit'', CNumber (Fin 3000))]) ''apiKey'' =
       Some (CString ''752d07a5cef56223ed1b0c558fbcfb444f012f4338d132eb46c8ca6c7981928a'')
   \<and> map_of (construct deep_extend
         [(''apiKey'', CUndefined), (''secret'', CUndefined), (''rateLimit'', CNumber (Fin 2000))]
         [(''apiKey'', CUndefined), (''secret'', CUndefined)]
         [(''verbose'', CBool True), (''rateLimit'', CNumber (Fin 3000))]) ''secret'' =
       Some (CString ''MmIyNDRiYTctMDMzMy00ODkyLThlNTgtZTRhNmRlN2ZjZDZm'')"
proof -
  let ?user = "[(''verbose'', CBool True), (''rateLimit'', CNumber (Fin 3000))]"
  have keys: "distinct (map fst ?user)" by simp
  have no_key: "map_of ?user ''apiKey'' = None" by simp
  have no_secret: "map_of ?user ''secret'' = None" by simp
  from construct_credentials [OF deep_extend_overlay keys no_key no_secret] keys no_key no_secret
  show ?thesis by blast
qed

text \<open>
  The same sample, computed: the instance has the rate limit of the user and the
  credentials of the literal.
\<close>

lemma construct_sample:
  "map (\<lambda>k. map_of (construct deep_extend
         [(''apiKey'', CUndefined), (''secret'', CUndefined), (''rateLimit'', CNumber (Fin 2000))]
         [(''apiKey'', CUndefined), (''secret'', CUndefined)]
         [(''verbose'', CBool True), (''rateLimit'', CNumber (Fin 3000))]) k)
     [''apiKey'', ''secret'', ''rateLimit'', ''verbose'', ''id''] =
   [Some (CString ''752d07a5cef56223ed1b0c558fbcfb444f012f4338d132eb46c8ca6c7981928a''),
    Some (CString ''MmIyNDRiYTctMDMzMy00ODkyLThlNTgtZTRhNmRlN2ZjZDZm''),
    Some (CNumber (Fin 3000)), Some (CBool True), Some (CString ''cpdax'')]"
  by (simp add: construct_def describe_object_def describe_literal_def describe_def property_def)

end
